theory Spec2Isabelle
  imports Complex_Main "HOL-Library.Char_ord" "HOL-Library.List_Lexorder"
begin

section \<open>The statistics engine of DataStats (app/statistics/stats.py)\<close>

text \<open>
  The four functions of \<^verbatim>\<open>stats.py\<close> take a pandas DataFrame with the columns
  \<^verbatim>\<open>Sku\<close> and \<^verbatim>\<open>Value\<close> and return Python dictionaries from SKU to a float.
  Three of them are one pandas call each
  (\<^verbatim>\<open>df.groupby('Sku')['Value'].mean()\<close>, \<^verbatim>\<open>.var()\<close>, \<^verbatim>\<open>.std()\<close>, then
  \<^verbatim>\<open>.to_dict()\<close>); the fourth, \<^verbatim>\<open>get_sigma\<close>, is a loop over the keys of the mean
  dictionary.

  A float is modelled as an exact real number or the not-a-number marker: the
  arithmetic below is the arithmetic of the reals, so rounding, overflow and the
  infinities are outside the model. The not-a-number marker is kept because pandas
  produces it (variance of a single sample) and reads it (a missing cell of the
  \<^verbatim>\<open>Value\<close> column), and because the comparisons of \<^verbatim>\<open>get_sigma\<close>
  behave differently on it.
\<close>

subsection \<open>Floats, errors, dictionaries\<close>

datatype fval = Num real | NaN

datatype py_error = KeyError | ZeroDivisionError

type_synonym sku = string

text \<open>A DataFrame is the list of its rows, each a pair of the \<^verbatim>\<open>Sku\<close> and the
  \<^verbatim>\<open>Value\<close> cell.\<close>

type_synonym dataset = "(sku \<times> fval) list"

text \<open>A dictionary built by the code is an association list in insertion order, with
  one entry per key. The bound dictionaries \<^verbatim>\<open>LSL\<close> and \<^verbatim>\<open>USL\<close> come from
  the caller and are only tested for a key and read at a key, so they are partial
  maps.\<close>

type_synonym dict = "(sku \<times> fval) list"

type_synonym bounds = "sku \<rightharpoonup> fval"

text \<open>\<^verbatim>\<open>d[k]\<close> raises \<^verbatim>\<open>KeyError\<close> on a missing key.\<close>

definition getitem :: "dict \<Rightarrow> sku \<Rightarrow> py_error + fval" where
  "getitem d k = (case map_of d k of None \<Rightarrow> Inl KeyError | Some v \<Rightarrow> Inr v)"

definition getitem_bounds :: "bounds \<Rightarrow> sku \<Rightarrow> py_error + fval" where
  "getitem_bounds b k = (case b k of None \<Rightarrow> Inl KeyError | Some v \<Rightarrow> Inr v)"

text \<open>\<^verbatim>\<open>d[k] = v\<close> overwrites the entry of an existing key in place and appends a new
  key at the end.\<close>

fun setitem :: "sku \<Rightarrow> fval \<Rightarrow> dict \<Rightarrow> dict" where
  "setitem k v [] = [(k, v)]"
| "setitem k v ((k', v') # d) = (if k' = k then (k, v) # d else (k', v') # setitem k v d)"

definition keys :: "dict \<Rightarrow> sku list" where
  "keys d = map fst d"

subsection \<open>Float operations used by get_sigma\<close>

text \<open>Subtraction: not-a-number propagates.\<close>

fun fsub :: "fval \<Rightarrow> fval \<Rightarrow> fval" where
  "fsub (Num a) (Num b) = Num (a - b)"
| "fsub _ _ = NaN"

text \<open>\<^verbatim>\<open>a < b\<close> and \<^verbatim>\<open>a == 0\<close> are false when an operand is not a number.\<close>

fun flt :: "fval \<Rightarrow> fval \<Rightarrow> bool" where
  "flt (Num a) (Num b) = (a < b)"
| "flt _ _ = False"

fun feq0 :: "fval \<Rightarrow> bool" where
  "feq0 (Num a) = (a = 0)"
| "feq0 NaN = False"

text \<open>Python's builtin \<^verbatim>\<open>min(a, b)\<close> keeps its first argument unless the second is
  strictly smaller.\<close>

definition py_min :: "fval \<Rightarrow> fval \<Rightarrow> fval" where
  "py_min a b = (if flt b a then b else a)"

text \<open>Division of Python floats raises \<^verbatim>\<open>ZeroDivisionError\<close> on a zero divisor.\<close>

fun fdiv :: "fval \<Rightarrow> fval \<Rightarrow> py_error + fval" where
  "fdiv (Num a) (Num b) = (if b = 0 then Inl ZeroDivisionError else Inr (Num (a / b)))"
| "fdiv NaN (Num b) = (if b = 0 then Inl ZeroDivisionError else Inr NaN)"
| "fdiv _ NaN = Inr NaN"

fun fsqrt :: "fval \<Rightarrow> fval" where
  "fsqrt (Num a) = (if a < 0 then NaN else Num (sqrt a))"
| "fsqrt NaN = NaN"

subsection \<open>The pandas group-by aggregates\<close>

text \<open>\<^verbatim>\<open>df.groupby('Sku')\<close> has one group per distinct SKU, in sorted order of the
  keys (\<^verbatim>\<open>sort=True\<close> is the default); the group of a key holds the
  \<^verbatim>\<open>Value\<close> cells of the rows with that key, in row order.\<close>

definition group_keys :: "dataset \<Rightarrow> sku list" where
  "group_keys df = sort (remdups (map fst df))"

definition group_values :: "dataset \<Rightarrow> sku \<Rightarrow> fval list" where
  "group_values df k = map snd (filter (\<lambda>r. fst r = k) df)"

text \<open>The aggregates skip missing values: the samples of a group are its cells that
  are numbers.\<close>

fun samples :: "fval list \<Rightarrow> real list" where
  "samples [] = []"
| "samples (Num x # vs) = x # samples vs"
| "samples (NaN # vs) = samples vs"

definition arith_mean :: "real list \<Rightarrow> real" where
  "arith_mean xs = sum_list xs / real (length xs)"

text \<open>\<^verbatim>\<open>mean()\<close>: the sum of the samples over their count; not-a-number when the
  group has no sample.\<close>

definition agg_mean :: "fval list \<Rightarrow> fval" where
  "agg_mean vs = (let xs = samples vs in if xs = [] then NaN else Num (arith_mean xs))"

text \<open>\<^verbatim>\<open>var()\<close> with its default \<^verbatim>\<open>ddof=1\<close>: the sum of the squared deviations
  from the mean over the count minus one; not-a-number when the count is at most
  one.\<close>

definition sample_var :: "real list \<Rightarrow> real" where
  "sample_var xs = (\<Sum>x\<leftarrow>xs. (x - arith_mean xs)\<^sup>2) / (real (length xs) - 1)"

definition agg_var :: "fval list \<Rightarrow> fval" where
  "agg_var vs = (let xs = samples vs in if length xs \<le> 1 then NaN else Num (sample_var xs))"

text \<open>\<^verbatim>\<open>std()\<close>: the square root of the same variance.\<close>

definition agg_std :: "fval list \<Rightarrow> fval" where
  "agg_std vs = fsqrt (agg_var vs)"

text \<open>\<^verbatim>\<open>Series.to_dict()\<close> of the aggregated series: one entry per group, in the
  order of the groups.\<close>

definition groupby_agg :: "(fval list \<Rightarrow> fval) \<Rightarrow> dataset \<Rightarrow> dict" where
  "groupby_agg f df = map (\<lambda>k. (k, f (group_values df k))) (group_keys df)"

subsection \<open>get_mean, get_variance, get_std_dev\<close>

definition get_mean :: "dataset \<Rightarrow> dict" where
  "get_mean df = groupby_agg agg_mean df"

definition get_variance :: "dataset \<Rightarrow> dict" where
  "get_variance df = groupby_agg agg_var df"

definition get_std_dev :: "dataset \<Rightarrow> dict" where
  "get_std_dev df = groupby_agg agg_std df"

subsection \<open>get_sigma\<close>

text \<open>The state that the loop of \<^verbatim>\<open>get_sigma\<close> works on: the two bound
  dictionaries it was given, the dictionary it builds, and the lines printed so
  far.\<close>

record sigma_state =
  LSL :: bounds
  USL :: bounds
  sigma_dict :: dict
  stdout :: "string list"

definition warning :: "sku \<Rightarrow> string" where
  "warning k = ''Warning: Standard deviation for '' @ k @ '' is 0, skipping Sigma calculation''"

text \<open>One iteration of \<^verbatim>\<open>for sku in mean_dict.keys()\<close>.\<close>

definition sigma_body :: "dict \<Rightarrow> dict \<Rightarrow> sku \<Rightarrow> sigma_state \<Rightarrow> py_error + sigma_state" where
  "sigma_body mean_dict std_dict k st =
     (if k \<in> dom (LSL st) \<and> k \<in> dom (USL st) \<and> k \<in> set (keys std_dict) then
        case getitem mean_dict k of Inl e \<Rightarrow> Inl e | Inr mean \<Rightarrow>
        case getitem std_dict k of Inl e \<Rightarrow> Inl e | Inr std \<Rightarrow>
          if feq0 std then Inr (st\<lparr>stdout := stdout st @ [warning k]\<rparr>)
          else
            case getitem_bounds (USL st) k of Inl e \<Rightarrow> Inl e | Inr u \<Rightarrow>
            case getitem_bounds (LSL st) k of Inl e \<Rightarrow> Inl e | Inr l \<Rightarrow>
            let sigma_upper = fsub u mean; sigma_lower = fsub mean l in
            case fdiv (py_min sigma_upper sigma_lower) std of Inl e \<Rightarrow> Inl e | Inr sigma \<Rightarrow>
              Inr (st\<lparr>sigma_dict := setitem k sigma (sigma_dict st)\<rparr>)
      else Inr st)"

fun sigma_loop :: "dict \<Rightarrow> dict \<Rightarrow> sku list \<Rightarrow> sigma_state \<Rightarrow> py_error + sigma_state" where
  "sigma_loop mean_dict std_dict [] st = Inr st"
| "sigma_loop mean_dict std_dict (k # ks) st =
     (case sigma_body mean_dict std_dict k st of
        Inl e \<Rightarrow> Inl e
      | Inr st' \<Rightarrow> sigma_loop mean_dict std_dict ks st')"

text \<open>\<^verbatim>\<open>get_sigma(df, LSL, USL)\<close>, run with \<open>out\<close> already printed. The returned
  dictionary is the \<open>sigma_dict\<close> of the final state.\<close>

definition get_sigma :: "dataset \<Rightarrow> bounds \<Rightarrow> bounds \<Rightarrow> string list \<Rightarrow> py_error + sigma_state" where
  "get_sigma df lsl usl out =
     (let mean_dict = get_mean df; std_dict = get_std_dev df in
      sigma_loop mean_dict std_dict (keys mean_dict)
        \<lparr>LSL = lsl, USL = usl, sigma_dict = [], stdout = out\<rparr>)"

subsection \<open>Auxiliary functions for the proofs\<close>

text \<open>What one iteration of the loop contributes for a key, written as functions of the
  key: the value it stores (none when the key is skipped) and whether it prints the
  warning. They serve to state the result of the whole loop in closed form; the lemma
  \<open>sigma_body_eq\<close> below proves that they agree with \<open>sigma_body\<close>.\<close>

definition sigma_value :: "fval \<Rightarrow> fval \<Rightarrow> fval \<Rightarrow> fval \<Rightarrow> fval" where
  "sigma_value mean std l u =
     (case fdiv (py_min (fsub u mean) (fsub mean l)) std of Inl e \<Rightarrow> NaN | Inr v \<Rightarrow> v)"

definition sigma_entry :: "dict \<Rightarrow> dict \<Rightarrow> bounds \<Rightarrow> bounds \<Rightarrow> sku \<Rightarrow> fval option" where
  "sigma_entry md sd lsl usl k =
     (case (lsl k, usl k, map_of md k, map_of sd k) of
        (Some l, Some u, Some m, Some s) \<Rightarrow> if feq0 s then None else Some (sigma_value m s l u)
      | _ \<Rightarrow> None)"

definition sigma_warn :: "dict \<Rightarrow> bounds \<Rightarrow> bounds \<Rightarrow> sku \<Rightarrow> bool" where
  "sigma_warn sd lsl usl k =
     (case (lsl k, usl k, map_of sd k) of (Some l, Some u, Some s) \<Rightarrow> feq0 s | _ \<Rightarrow> False)"

definition entries :: "(sku \<Rightarrow> fval option) \<Rightarrow> sku list \<Rightarrow> dict" where
  "entries f ks = List.map_filter (\<lambda>k. map_option (Pair k) (f k)) ks"

section \<open>Properties\<close>

subsection \<open>Group-by, dictionaries and the loop of get_sigma\<close>

lemma set_group_keys: "set (group_keys df) = fst ` set df"
  by (simp add: group_keys_def)

lemma distinct_group_keys: "distinct (group_keys df)"
  by (simp add: group_keys_def)

lemma keys_groupby_agg: "keys (groupby_agg f df) = group_keys df"
  by (simp add: keys_def groupby_agg_def comp_def)

lemma map_of_groupby_agg:
  "map_of (groupby_agg f df) k = (if k \<in> fst ` set df then Some (f (group_values df k)) else None)"
  by (simp add: groupby_agg_def map_of_map_restrict restrict_map_def set_group_keys)

lemma keys_map_of: "k \<in> set (keys d) \<longleftrightarrow> map_of d k \<noteq> None"
  by (simp add: keys_def map_of_eq_None_iff)

lemma keys_Nil: "keys [] = []"
  by (simp add: keys_def)

lemma setitem_fresh: "k \<notin> set (keys d) \<Longrightarrow> setitem k v d = d @ [(k, v)]"
  by (induction d) (auto simp: keys_def)

lemma fdiv_nonzero: "\<not> feq0 s \<Longrightarrow> fdiv a s = Inr (case fdiv a s of Inl e \<Rightarrow> NaN | Inr v \<Rightarrow> v)"
  by (cases a; cases s) auto

lemma sigma_value_fdiv:
  "\<not> feq0 s \<Longrightarrow> fdiv (py_min (fsub u m) (fsub m l)) s = Inr (sigma_value m s l u)"
  unfolding sigma_value_def by (rule fdiv_nonzero)

lemma entries_Nil: "entries f [] = []"
  by (simp add: entries_def)

lemma entries_Cons:
  "entries f (k # ks) = (case f k of None \<Rightarrow> entries f ks | Some v \<Rightarrow> (k, v) # entries f ks)"
  by (simp add: entries_def split: option.splits)

lemma keys_entries: "set (keys (entries f ks)) = {k \<in> set ks. f k \<noteq> None}"
  by (induction ks) (auto simp: entries_Nil entries_Cons keys_def split: option.splits)

lemma map_of_entries: "map_of (entries f ks) k = (if k \<in> set ks then f k else None)"
  by (induction ks) (auto simp: entries_Nil entries_Cons split: option.splits)

lemma sigma_body_eq:
  assumes "k \<in> set (keys md)" and "k \<notin> set (keys (sigma_dict st))"
  shows "sigma_body md sd k st =
     Inr (st\<lparr>sigma_dict := sigma_dict st @ entries (sigma_entry md sd (LSL st) (USL st)) [k],
            stdout := stdout st @ map warning (filter (sigma_warn sd (LSL st) (USL st)) [k])\<rparr>)"
proof -
  obtain m where m: "map_of md k = Some m"
    using assms(1) by (auto simp: keys_map_of)
  show ?thesis
  proof (cases "k \<in> dom (LSL st) \<and> k \<in> dom (USL st) \<and> k \<in> set (keys sd)")
    case False
    then have "sigma_entry md sd (LSL st) (USL st) k = None \<and>
        \<not> sigma_warn sd (LSL st) (USL st) k"
      by (auto simp: sigma_entry_def sigma_warn_def keys_map_of dom_def split: option.splits)
    moreover have "sigma_body md sd k st = Inr st"
      unfolding sigma_body_def using False by (simp only: if_False)
    ultimately show ?thesis
      by (simp add: entries_Cons entries_Nil)
  next
    case True
    then obtain l u s where lus: "LSL st k = Some l" "USL st k = Some u" "map_of sd k = Some s"
      by (auto simp: keys_map_of)
    show ?thesis
    proof (cases "feq0 s")
      case z: True
      with True lus m show ?thesis
        by (simp add: sigma_body_def getitem_def sigma_entry_def sigma_warn_def
            entries_Cons entries_Nil)
    next
      case nz: False
      with True lus m assms(2) show ?thesis
        by (simp add: sigma_body_def getitem_def getitem_bounds_def sigma_entry_def
            sigma_warn_def entries_Cons entries_Nil sigma_value_fdiv setitem_fresh)
    qed
  qed
qed

lemma entries_append: "entries f (xs @ ys) = entries f xs @ entries f ys"
  by (induction xs) (simp_all add: entries_Nil entries_Cons split: option.splits)

lemma sigma_loop_eq:
  assumes "distinct ks" and "set ks \<subseteq> set (keys md)"
    and "set ks \<inter> set (keys (sigma_dict st)) = {}"
  shows "sigma_loop md sd ks st =
     Inr (st\<lparr>sigma_dict := sigma_dict st @ entries (sigma_entry md sd (LSL st) (USL st)) ks,
            stdout := stdout st @ map warning (filter (sigma_warn sd (LSL st) (USL st)) ks)\<rparr>)"
  using assms
proof (induction ks arbitrary: st)
  case Nil
  then show ?case by (simp add: entries_Nil)
next
  case (Cons k ks)
  let ?st' = "st\<lparr>sigma_dict := sigma_dict st @ entries (sigma_entry md sd (LSL st) (USL st)) [k],
            stdout := stdout st @ map warning (filter (sigma_warn sd (LSL st) (USL st)) [k])\<rparr>"
  have body: "sigma_body md sd k st = Inr ?st'"
    using Cons.prems by (intro sigma_body_eq) auto
  have "set (keys (sigma_dict ?st')) \<subseteq> set (keys (sigma_dict st)) \<union> {k}"
    using keys_entries [of "sigma_entry md sd (LSL st) (USL st)" "[k]"]
    by (auto simp: keys_def)
  with Cons.prems have disj: "set ks \<inter> set (keys (sigma_dict ?st')) = {}"
    by auto
  have "sigma_loop md sd ks ?st' =
     Inr (?st'\<lparr>sigma_dict := sigma_dict ?st' @ entries (sigma_entry md sd (LSL ?st') (USL ?st')) ks,
            stdout := stdout ?st' @ map warning (filter (sigma_warn sd (LSL ?st') (USL ?st')) ks)\<rparr>)"
    using Cons.prems disj by (intro Cons.IH) auto
  then show ?case
    using body entries_append [of "sigma_entry md sd (LSL st) (USL st)" "[k]" ks]
    by simp
qed

lemma get_sigma_eq:
  "get_sigma df lsl usl out =
     Inr \<lparr>LSL = lsl, USL = usl,
          sigma_dict = entries (sigma_entry (get_mean df) (get_std_dev df) lsl usl) (group_keys df),
          stdout = out @ map warning (filter (sigma_warn (get_std_dev df) lsl usl) (group_keys df))\<rparr>"
  unfolding get_sigma_def Let_def
  by (subst sigma_loop_eq)
    (simp_all add: get_mean_def keys_groupby_agg distinct_group_keys keys_Nil)

lemma sigma_entry_Some_iff:
  "sigma_entry md sd lsl usl k = Some v \<longleftrightarrow>
     (\<exists>l u m s. lsl k = Some l \<and> usl k = Some u \<and> map_of md k = Some m \<and> map_of sd k = Some s \<and>
        \<not> feq0 s \<and> fdiv (py_min (fsub u m) (fsub m l)) s = Inr v)"
  by (auto simp: sigma_entry_def sigma_value_fdiv split: option.splits)

lemma sigma_quotient_real:
  "fdiv (py_min (fsub u m) (fsub m l)) s = Inr v \<Longrightarrow>
     (\<forall>m' s' l' u'. m = Num m' \<and> s = Num s' \<and> l = Num l' \<and> u = Num u' \<longrightarrow>
        s' \<noteq> 0 \<and> v = Num (min (u' - m') (m' - l') / s')) \<and>
     (m = NaN \<or> s = NaN \<or> u = NaN \<longrightarrow> v = NaN) \<and>
     (\<forall>m' s' u'. m = Num m' \<and> s = Num s' \<and> u = Num u' \<and> l = NaN \<longrightarrow>
        s' \<noteq> 0 \<and> v = Num ((u' - m') / s'))"
  by (cases m; cases s; cases l; cases u) (auto simp: py_min_def min_def split: if_splits)

lemma sigma_warn_iff:
  "sigma_warn sd lsl usl k \<longleftrightarrow>
     k \<in> dom lsl \<and> k \<in> dom usl \<and> (\<exists>s. map_of sd k = Some s \<and> feq0 s)"
  by (auto simp: sigma_warn_def split: option.splits)

lemma warning_inj: "warning k = warning k' \<longleftrightarrow> k = k'"
  by (simp add: warning_def)

lemma samples_map_Num: "samples (map Num xs) = xs"
  by (induction xs) auto

lemma group_values_Nil: "k \<notin> fst ` set df \<Longrightarrow> group_values df k = []"
  by (induction df) (auto simp: group_values_def)

lemma samples_group_keyD: "samples (group_values df k) \<noteq> [] \<Longrightarrow> k \<in> fst ` set df"
  using group_values_Nil [of k df] by fastforce

lemmas stats_defs = get_mean_def get_variance_def get_std_dev_def groupby_agg_def
  group_keys_def group_values_def agg_mean_def agg_var_def agg_std_def
  arith_mean_def sample_var_def

lemmas sigma_defs = get_sigma_def keys_def sigma_body_def getitem_def getitem_bounds_def
  py_min_def

subsection \<open>The claims of the specification\<close>

text \<open>Claim C1. Whatever the dataset, the bound dictionaries and the lines already
  printed, \<^verbatim>\<open>get_sigma\<close> returns without raising, and every value \<open>v\<close> it
  stores for a SKU is \<^verbatim>\<open>min(USL[sku] - mean, mean - LSL[sku]) / std\<close>, where
  \<open>mean\<close> and \<open>std\<close> are the entries of that SKU in \<open>get_mean\<close> and
  \<open>get_std_dev\<close> of the same dataset. In the arithmetic of the reals: when the mean,
  the standard deviation and the two bounds are numbers, the standard deviation is not
  0 and \<open>v\<close> is the smaller of the two differences \<open>u - m\<close> and \<open>m - l\<close> divided by
  the standard deviation; \<open>v\<close> is not-a-number when the mean, the standard deviation
  or the upper bound is not a number; and when only the lower bound is not a number,
  Python's \<^verbatim>\<open>min\<close> keeps its first argument and \<open>v\<close> is the upper margin over the
  standard deviation. For the rows (A,65), (A,67), (A,63), of mean 65 and standard
  deviation 2, and the lower bound 60: the upper bound 70 gives 2.5; the upper bound
  80 gives 2.5 again, the lower margin 5 being the smaller one, not 15 / 2; the upper
  bound 66 gives 0.5, the upper margin 1 being the smaller one; the upper bound 64,
  below the mean, gives -0.5.\<close>

theorem get_sigma_formula:
  "(\<exists>st. get_sigma df lsl usl out = Inr st \<and>
      (\<forall>k v. map_of (sigma_dict st) k = Some v \<longrightarrow>
         (\<exists>m s l u. map_of (get_mean df) k = Some m \<and> map_of (get_std_dev df) k = Some s \<and>
            lsl k = Some l \<and> usl k = Some u \<and>
            fdiv (py_min (fsub u m) (fsub m l)) s = Inr v \<and>
            (\<forall>m' s' l' u'. m = Num m' \<and> s = Num s' \<and> l = Num l' \<and> u = Num u' \<longrightarrow>
               s' \<noteq> 0 \<and> v = Num (min (u' - m') (m' - l') / s')) \<and>
            (m = NaN \<or> s = NaN \<or> u = NaN \<longrightarrow> v = NaN) \<and>
            (\<forall>m' s' u'. m = Num m' \<and> s = Num s' \<and> u = Num u' \<and> l = NaN \<longrightarrow>
               s' \<noteq> 0 \<and> v = Num ((u' - m') / s'))))) \<and>
   (\<exists>st. get_sigma [(''A'', Num 65), (''A'', Num 67), (''A'', Num 63)]
            [''A'' \<mapsto> Num 60] [''A'' \<mapsto> Num 70] out = Inr st \<and>
          sigma_dict st = [(''A'', Num (5 / 2))]) \<and>
   (\<exists>st. get_sigma [(''A'', Num 65), (''A'', Num 67), (''A'', Num 63)]
            [''A'' \<mapsto> Num 60] [''A'' \<mapsto> Num 80] out = Inr st \<and>
          sigma_dict st = [(''A'', Num (5 / 2))]) \<and>
   (\<exists>st. get_sigma [(''A'', Num 65), (''A'', Num 67), (''A'', Num 63)]
            [''A'' \<mapsto> Num 60] [''A'' \<mapsto> Num 66] out = Inr st \<and>
          sigma_dict st = [(''A'', Num (1 / 2))]) \<and>
   (\<exists>st. get_sigma [(''A'', Num 65), (''A'', Num 67), (''A'', Num 63)]
            [''A'' \<mapsto> Num 60] [''A'' \<mapsto> Num 64] out = Inr st \<and>
          sigma_dict st = [(''A'', Num (- 1 / 2))]) \<and>
   fdiv (py_min (fsub (Num 80) (Num 65)) (fsub (Num 65) (Num 60))) (Num 2) = Inr (Num (5 / 2))"
proof (intro conjI)
  show "\<exists>st. get_sigma df lsl usl out = Inr st \<and>
      (\<forall>k v. map_of (sigma_dict st) k = Some v \<longrightarrow>
         (\<exists>m s l u. map_of (get_mean df) k = Some m \<and> map_of (get_std_dev df) k = Some s \<and>
            lsl k = Some l \<and> usl k = Some u \<and>
            fdiv (py_min (fsub u m) (fsub m l)) s = Inr v \<and>
            (\<forall>m' s' l' u'. m = Num m' \<and> s = Num s' \<and> l = Num l' \<and> u = Num u' \<longrightarrow>
               s' \<noteq> 0 \<and> v = Num (min (u' - m') (m' - l') / s')) \<and>
            (m = NaN \<or> s = NaN \<or> u = NaN \<longrightarrow> v = NaN) \<and>
            (\<forall>m' s' u'. m = Num m' \<and> s = Num s' \<and> u = Num u' \<and> l = NaN \<longrightarrow>
               s' \<noteq> 0 \<and> v = Num ((u' - m') / s'))))"
  proof -
    let ?d = "entries (sigma_entry (get_mean df) (get_std_dev df) lsl usl) (group_keys df)"
    have "\<exists>m s l u. map_of (get_mean df) k = Some m \<and> map_of (get_std_dev df) k = Some s \<and>
            lsl k = Some l \<and> usl k = Some u \<and>
            fdiv (py_min (fsub u m) (fsub m l)) s = Inr v \<and>
            (\<forall>m' s' l' u'. m = Num m' \<and> s = Num s' \<and> l = Num l' \<and> u = Num u' \<longrightarrow>
               s' \<noteq> 0 \<and> v = Num (min (u' - m') (m' - l') / s')) \<and>
            (m = NaN \<or> s = NaN \<or> u = NaN \<longrightarrow> v = NaN) \<and>
            (\<forall>m' s' u'. m = Num m' \<and> s = Num s' \<and> u = Num u' \<and> l = NaN \<longrightarrow>
               s' \<noteq> 0 \<and> v = Num ((u' - m') / s'))"
      if "map_of ?d k = Some v" for k v
    proof -
      from that have "sigma_entry (get_mean df) (get_std_dev df) lsl usl k = Some v"
        by (simp add: map_of_entries split: if_splits)
      then obtain l u m s where lums: "lsl k = Some l" "usl k = Some u"
          "map_of (get_mean df) k = Some m" "map_of (get_std_dev df) k = Some s"
        and q: "fdiv (py_min (fsub u m) (fsub m l)) s = Inr v"
        by (auto simp: sigma_entry_Some_iff)
      from sigma_quotient_real [OF q] lums q show ?thesis
        by blast
    qed
    then show ?thesis
      by (simp add: get_sigma_eq)
  qed
qed (simp_all add: stats_defs sigma_defs)

text \<open>The general part of C1 used where the upper margin is the smaller one: for the
  rows (A,65), (A,67), (A,63) and the bounds 60 and 66 an entry is stored for A, the
  mean 65 and the standard deviation 2 are numbers, and the entry is
  min (66 - 65) (65 - 60) / 2 = 0.5.\<close>

theorem get_sigma_formula_witness:
  "\<exists>st v. get_sigma [(''A'', Num 65), (''A'', Num 67), (''A'', Num 63)]
            [''A'' \<mapsto> Num 60] [''A'' \<mapsto> Num 66] [] = Inr st \<and>
     map_of (sigma_dict st) ''A'' = Some v \<and>
     map_of (get_mean [(''A'', Num 65), (''A'', Num 67), (''A'', Num 63)]) ''A'' = Some (Num 65) \<and>
     map_of (get_std_dev [(''A'', Num 65), (''A'', Num 67), (''A'', Num 63)]) ''A'' = Some (Num 2) \<and>
     v = Num (min (66 - 65) (65 - 60) / 2) \<and> v = Num (1 / 2)"
proof -
  let ?df = "[(''A'', Num 65), (''A'', Num 67), (''A'', Num 63)]"
  let ?lsl = "[''A'' \<mapsto> Num 60]" and ?usl = "[''A'' \<mapsto> Num 66]"
  from get_sigma_formula [of ?df ?lsl ?usl "[]"]
  obtain st where st: "get_sigma ?df ?lsl ?usl [] = Inr st"
    and all: "\<forall>k v. map_of (sigma_dict st) k = Some v \<longrightarrow>
         (\<exists>m s l u. map_of (get_mean ?df) k = Some m \<and> map_of (get_std_dev ?df) k = Some s \<and>
            ?lsl k = Some l \<and> ?usl k = Some u \<and>
            fdiv (py_min (fsub u m) (fsub m l)) s = Inr v \<and>
            (\<forall>m' s' l' u'. m = Num m' \<and> s = Num s' \<and> l = Num l' \<and> u = Num u' \<longrightarrow>
               s' \<noteq> 0 \<and> v = Num (min (u' - m') (m' - l') / s')) \<and>
            (m = NaN \<or> s = NaN \<or> u = NaN \<longrightarrow> v = NaN) \<and>
            (\<forall>m' s' u'. m = Num m' \<and> s = Num s' \<and> u = Num u' \<and> l = NaN \<longrightarrow>
               s' \<noteq> 0 \<and> v = Num ((u' - m') / s')))"
    by blast
  have mean: "map_of (get_mean ?df) ''A'' = Some (Num 65)"
    by (simp add: stats_defs)
  have std: "map_of (get_std_dev ?df) ''A'' = Some (Num 2)"
    by (simp add: stats_defs)
  have "''A'' \<in> set (keys (sigma_dict st))"
    using st by (auto simp: stats_defs sigma_defs)
  then obtain v where hyp: "map_of (sigma_dict st) ''A'' = Some v"
    by (auto simp: keys_map_of)
  with all obtain m s l u where "map_of (get_mean ?df) ''A'' = Some m"
      "map_of (get_std_dev ?df) ''A'' = Some s" "?lsl ''A'' = Some l" "?usl ''A'' = Some u"
      and num: "\<forall>m' s' l' u'. m = Num m' \<and> s = Num s' \<and> l = Num l' \<and> u = Num u' \<longrightarrow>
               s' \<noteq> 0 \<and> v = Num (min (u' - m') (m' - l') / s')"
    by blast
  with mean std have "m = Num 65 \<and> s = Num 2 \<and> l = Num 60 \<and> u = Num 66"
    by simp
  with num have v: "v = Num (min (66 - 65) (65 - 60) / 2)"
    by blast
  then have "v = Num (1 / 2)" by simp
  with st hyp mean std v show ?thesis by blast
qed

text \<open>Claim C2. The dictionary of \<^verbatim>\<open>get_mean\<close> has exactly one key per distinct SKU
  of the dataset. Each key is mapped to the arithmetic mean (sum over count) of the
  \<^verbatim>\<open>Value\<close> cells of the rows with that SKU; a cell that is not a number is a
  missing value for pandas and is left out of both the sum and the count, and a group
  with no number at all gets not-a-number. When every cell of the group is a number
  the entry is the plain mean of all of them. The rows (A,10), (A,20), (B,5) give
  A: 15, B: 5.\<close>

theorem get_mean_groups:
  "distinct (keys (get_mean df)) \<and> set (keys (get_mean df)) = fst ` set df \<and>
   (\<forall>k\<in>fst ` set df. \<forall>xs. samples (map snd (filter (\<lambda>r. fst r = k) df)) = xs \<longrightarrow>
      map_of (get_mean df) k =
        Some (if xs = [] then NaN else Num (sum_list xs / real (length xs)))) \<and>
   (\<forall>k\<in>fst ` set df. \<forall>xs. map snd (filter (\<lambda>r. fst r = k) df) = map Num xs \<longrightarrow>
      map_of (get_mean df) k = Some (Num (sum_list xs / real (length xs)))) \<and>
   get_mean [(''A'', Num 10), (''A'', Num 20), (''B'', Num 5)] = [(''A'', Num 15), (''B'', Num 5)]"
proof (intro conjI)
  show "distinct (keys (get_mean df))"
    by (simp add: get_mean_def keys_groupby_agg distinct_group_keys)
  show "set (keys (get_mean df)) = fst ` set df"
    by (simp add: get_mean_def keys_groupby_agg set_group_keys)
  show "\<forall>k\<in>fst ` set df. \<forall>xs. samples (map snd (filter (\<lambda>r. fst r = k) df)) = xs \<longrightarrow>
      map_of (get_mean df) k =
        Some (if xs = [] then NaN else Num (sum_list xs / real (length xs)))"
    by (simp add: get_mean_def map_of_groupby_agg agg_mean_def arith_mean_def group_values_def)
  show "\<forall>k\<in>fst ` set df. \<forall>xs. map snd (filter (\<lambda>r. fst r = k) df) = map Num xs \<longrightarrow>
      map_of (get_mean df) k = Some (Num (sum_list xs / real (length xs)))"
  proof (intro ballI allI impI)
    fix k xs
    assume k: "k \<in> fst ` set df" and xs: "map snd (filter (\<lambda>r. fst r = k) df) = map Num xs"
    from k have "filter (\<lambda>r. fst r = k) df \<noteq> []"
      by (auto simp: filter_empty_conv)
    with xs have "xs \<noteq> []" by auto
    with k xs show "map_of (get_mean df) k = Some (Num (sum_list xs / real (length xs)))"
      by (simp add: get_mean_def map_of_groupby_agg agg_mean_def arith_mean_def
          group_values_def samples_map_Num)
  qed
  show "get_mean [(''A'', Num 10), (''A'', Num 20), (''B'', Num 5)] =
      [(''A'', Num 15), (''B'', Num 5)]"
    by (simp add: stats_defs)
qed

text \<open>C2 used at the key A of the rows (B,5), (A,10), (A,20): the group of A is
  10, 20 and its entry is 15.\<close>

theorem get_mean_groups_witness:
  "''A'' \<in> fst ` set [(''B'', Num 5), (''A'', Num 10), (''A'', Num 20)] \<and>
   map snd (filter (\<lambda>r. fst r = ''A'') [(''B'', Num 5), (''A'', Num 10), (''A'', Num 20)]) =
     map Num [10, 20] \<and>
   samples (map snd (filter (\<lambda>r. fst r = ''A'') [(''B'', Num 5), (''A'', Num 10), (''A'', Num 20)])) =
     [10, 20] \<and>
   map_of (get_mean [(''B'', Num 5), (''A'', Num 10), (''A'', Num 20)]) ''A'' = Some (Num 15)"
proof -
  let ?df = "[(''B'', Num 5), (''A'', Num 10), (''A'', Num 20)]"
  have k: "''A'' \<in> fst ` set ?df" by simp
  have xs: "map snd (filter (\<lambda>r. fst r = ''A'') ?df) = map Num [10, 20]" by simp
  have ys: "samples (map snd (filter (\<lambda>r. fst r = ''A'') ?df)) = [10, 20]" by simp
  from get_mean_groups [of ?df] k xs
  have "map_of (get_mean ?df) ''A'' = Some (Num (sum_list [10, 20] / real (length [10, 20 :: real])))"
    by blast
  with k xs ys show ?thesis by simp
qed

text \<open>Claim C3. For every SKU whose group has at least two samples \<open>xs\<close> (cells that
  are numbers), the entry of \<^verbatim>\<open>get_variance\<close> is the sum of the squared deviations
  from the mean divided by the number of samples minus one, it is not negative, and
  the entry of \<^verbatim>\<open>get_std_dev\<close> is its square root. The equality is exact here,
  as the model computes with real numbers.\<close>

theorem std_dev_sqrt_variance:
  "\<forall>k xs. samples (group_values df k) = xs \<and> 2 \<le> length xs \<longrightarrow>
     map_of (get_variance df) k =
       Some (Num ((\<Sum>x\<leftarrow>xs. (x - sum_list xs / real (length xs))\<^sup>2) / (real (length xs) - 1))) \<and>
     (\<exists>v. map_of (get_variance df) k = Some (Num v) \<and> 0 \<le> v \<and>
          map_of (get_std_dev df) k = Some (Num (sqrt v)))"
proof (intro allI impI)
  fix k xs
  assume a: "samples (group_values df k) = xs \<and> 2 \<le> length xs"
  then have k: "k \<in> fst ` set df"
    by (intro samples_group_keyD) auto
  let ?v = "(\<Sum>x\<leftarrow>xs. (x - sum_list xs / real (length xs))\<^sup>2) / (real (length xs) - 1)"
  have var: "map_of (get_variance df) k = Some (Num ?v)"
    using a k by (simp add: get_variance_def map_of_groupby_agg agg_var_def sample_var_def
        arith_mean_def)
  have "0 \<le> (\<Sum>x\<leftarrow>xs. (x - sum_list xs / real (length xs))\<^sup>2)"
    by (intro sum_list_nonneg) auto
  moreover have "0 < real (length xs) - 1" using a by simp
  ultimately have nonneg: "0 \<le> ?v" by simp
  have "map_of (get_std_dev df) k = Some (Num (sqrt ?v))"
    using a k nonneg by (simp add: get_std_dev_def map_of_groupby_agg agg_std_def agg_var_def
        sample_var_def arith_mean_def)
  with var nonneg show "map_of (get_variance df) k = Some (Num ?v) \<and>
     (\<exists>v. map_of (get_variance df) k = Some (Num v) \<and> 0 \<le> v \<and>
          map_of (get_std_dev df) k = Some (Num (sqrt v)))"
    by blast
qed

text \<open>C3 used at the key A of the rows (A,65), (A,67), (A,63): three samples,
  variance 4, standard deviation the square root of 4.\<close>

theorem std_dev_sqrt_variance_witness:
  "samples (group_values [(''A'', Num 65), (''A'', Num 67), (''A'', Num 63)] ''A'') = [65, 67, 63] \<and>
   2 \<le> length [65, 67, 63 :: real] \<and>
   map_of (get_variance [(''A'', Num 65), (''A'', Num 67), (''A'', Num 63)]) ''A'' = Some (Num 4) \<and>
   map_of (get_std_dev [(''A'', Num 65), (''A'', Num 67), (''A'', Num 63)]) ''A'' = Some (Num (sqrt 4))"
proof -
  let ?df = "[(''A'', Num 65), (''A'', Num 67), (''A'', Num 63)]"
  have s: "samples (group_values ?df ''A'') = [65, 67, 63]"
    by (simp add: group_values_def)
  have l: "2 \<le> length [65, 67, 63 :: real]" by simp
  from std_dev_sqrt_variance [of ?df] s l
  have "map_of (get_variance ?df) ''A'' =
       Some (Num ((\<Sum>x\<leftarrow>[65, 67, 63]. (x - sum_list [65, 67, 63] / real (length [65, 67, 63 :: real]))\<^sup>2)
          / (real (length [65, 67, 63 :: real]) - 1))) \<and>
     (\<exists>v. map_of (get_variance ?df) ''A'' = Some (Num v) \<and> 0 \<le> v \<and>
          map_of (get_std_dev ?df) ''A'' = Some (Num (sqrt v)))"
    by blast
  then have "map_of (get_variance ?df) ''A'' = Some (Num 4) \<and>
      map_of (get_std_dev ?df) ''A'' = Some (Num (sqrt 4))"
    by auto
  with s l show ?thesis by blast
qed

text \<open>Claim C4 says that a SKU with standard deviation exactly 0 is left out of the
  result with a warning printed, for every dataset and all bound dictionaries. The
  warning is printed inside the branch that first tests the SKU against both bound
  dictionaries: for the rows (A,65), (A,65), whose standard deviation is 0, and empty
  bound dictionaries, \<^verbatim>\<open>get_sigma\<close> returns the empty dictionary and prints
  nothing.\<close>

theorem zero_std_warning_counterexample:
  "map_of (get_std_dev [(''A'', Num 65), (''A'', Num 65)]) ''A'' = Some (Num 0) \<and>
   get_sigma [(''A'', Num 65), (''A'', Num 65)] Map.empty Map.empty [] =
     Inr \<lparr>LSL = Map.empty, USL = Map.empty, sigma_dict = [], stdout = []\<rparr>"
  by (simp add: stats_defs sigma_defs)

text \<open>Claim C4, amended. If the standard deviation of a SKU is exactly 0,
  \<^verbatim>\<open>get_sigma\<close> returns without raising and the SKU is not a key of its result;
  among the lines printed by the call is the warning for that SKU exactly when the SKU
  is a key of both \<^verbatim>\<open>LSL\<close> and \<^verbatim>\<open>USL\<close>.\<close>

theorem zero_std_skip:
  "map_of (get_std_dev df) k = Some (Num 0) \<longrightarrow>
   (\<exists>st ws. get_sigma df lsl usl out = Inr st \<and> k \<notin> set (keys (sigma_dict st)) \<and>
      stdout st = out @ ws \<and> (warning k \<in> set ws \<longleftrightarrow> k \<in> dom lsl \<and> k \<in> dom usl))"
proof
  assume z: "map_of (get_std_dev df) k = Some (Num 0)"
  let ?md = "get_mean df" and ?sd = "get_std_dev df"
  from z have none: "sigma_entry ?md ?sd lsl usl k = None"
    by (auto simp: sigma_entry_def split: option.splits)
  from z have warn: "sigma_warn ?sd lsl usl k \<longleftrightarrow> k \<in> dom lsl \<and> k \<in> dom usl"
    by (simp add: sigma_warn_iff)
  from z have "k \<in> set (keys ?sd)"
    by (simp add: keys_map_of)
  then have k: "k \<in> set (group_keys df)"
    by (simp add: get_std_dev_def keys_groupby_agg)
  let ?ws = "map warning (filter (sigma_warn ?sd lsl usl) (group_keys df))"
  have "k \<notin> set (keys (entries (sigma_entry ?md ?sd lsl usl) (group_keys df)))"
    using none by (simp add: keys_entries)
  moreover have "warning k \<in> set ?ws \<longleftrightarrow> k \<in> dom lsl \<and> k \<in> dom usl"
    using warn k by (auto simp: warning_inj)
  ultimately show "\<exists>st ws. get_sigma df lsl usl out = Inr st \<and> k \<notin> set (keys (sigma_dict st)) \<and>
      stdout st = out @ ws \<and> (warning k \<in> set ws \<longleftrightarrow> k \<in> dom lsl \<and> k \<in> dom usl)"
    by (simp add: get_sigma_eq)
qed

text \<open>The amended C4 used at the rows (A,65), (A,65) with the bounds 60 and 70 for A:
  A is skipped and its warning is printed.\<close>

theorem zero_std_skip_witness:
  "map_of (get_std_dev [(''A'', Num 65), (''A'', Num 65)]) ''A'' = Some (Num 0) \<and>
   (\<exists>st ws. get_sigma [(''A'', Num 65), (''A'', Num 65)] [''A'' \<mapsto> Num 60] [''A'' \<mapsto> Num 70] [] = Inr st \<and>
      ''A'' \<notin> set (keys (sigma_dict st)) \<and> stdout st = [] @ ws \<and> warning ''A'' \<in> set ws)"
proof -
  let ?df = "[(''A'', Num 65), (''A'', Num 65)]"
  have z: "map_of (get_std_dev ?df) ''A'' = Some (Num 0)"
    by (simp add: stats_defs)
  from zero_std_skip [of ?df "''A''" "[''A'' \<mapsto> Num 60]" "[''A'' \<mapsto> Num 70]" "[]"] z
  obtain st ws where "get_sigma ?df [''A'' \<mapsto> Num 60] [''A'' \<mapsto> Num 70] [] = Inr st"
    "''A'' \<notin> set (keys (sigma_dict st))" "stdout st = [] @ ws"
    "warning ''A'' \<in> set ws \<longleftrightarrow> ''A'' \<in> dom [''A'' \<mapsto> Num 60] \<and> ''A'' \<in> dom [''A'' \<mapsto> Num 70]"
    by blast
  with z show ?thesis by auto
qed

text \<open>Claim C5. A SKU that is a key of \<^verbatim>\<open>get_mean\<close>'s result but is missing from
  \<^verbatim>\<open>LSL\<close>, from \<^verbatim>\<open>USL\<close> or from \<^verbatim>\<open>get_std_dev\<close>'s result is not a key of
  \<^verbatim>\<open>get_sigma\<close>'s result; the call returns without raising, and none of the lines
  it prints is the warning for that SKU.\<close>

theorem missing_bound_skip:
  "k \<in> set (keys (get_mean df)) \<and>
     (k \<notin> dom lsl \<or> k \<notin> dom usl \<or> k \<notin> set (keys (get_std_dev df))) \<longrightarrow>
   (\<exists>st ws. get_sigma df lsl usl out = Inr st \<and> k \<notin> set (keys (sigma_dict st)) \<and>
      stdout st = out @ ws \<and> warning k \<notin> set ws)"
proof
  assume a: "k \<in> set (keys (get_mean df)) \<and>
     (k \<notin> dom lsl \<or> k \<notin> dom usl \<or> k \<notin> set (keys (get_std_dev df)))"
  let ?md = "get_mean df" and ?sd = "get_std_dev df"
  from a have none: "sigma_entry ?md ?sd lsl usl k = None"
    by (auto simp: sigma_entry_def keys_map_of dom_def split: option.splits)
  from a have nowarn: "\<not> sigma_warn ?sd lsl usl k"
    by (auto simp: sigma_warn_iff keys_map_of)
  let ?ws = "map warning (filter (sigma_warn ?sd lsl usl) (group_keys df))"
  have "k \<notin> set (keys (entries (sigma_entry ?md ?sd lsl usl) (group_keys df)))"
    using none by (simp add: keys_entries)
  moreover have "warning k \<notin> set ?ws"
    using nowarn by (auto simp: warning_inj)
  ultimately show "\<exists>st ws. get_sigma df lsl usl out = Inr st \<and> k \<notin> set (keys (sigma_dict st)) \<and>
      stdout st = out @ ws \<and> warning k \<notin> set ws"
    by (simp add: get_sigma_eq)
qed

text \<open>C5 used at the SKU C, which has rows in the dataset and no bound in
  \<^verbatim>\<open>LSL\<close>.\<close>

theorem missing_bound_skip_witness:
  "''C'' \<in> set (keys (get_mean [(''C'', Num 1), (''C'', Num 3)])) \<and> ''C'' \<notin> dom [''A'' \<mapsto> Num 60] \<and>
   (\<exists>st ws. get_sigma [(''C'', Num 1), (''C'', Num 3)] [''A'' \<mapsto> Num 60] [''A'' \<mapsto> Num 70] [] = Inr st \<and>
      ''C'' \<notin> set (keys (sigma_dict st)) \<and> stdout st = [] @ ws \<and> warning ''C'' \<notin> set ws)"
proof -
  let ?df = "[(''C'', Num 1), (''C'', Num 3)]"
  have k: "''C'' \<in> set (keys (get_mean ?df))"
    by (simp add: stats_defs keys_def)
  have l: "''C'' \<notin> dom [''A'' \<mapsto> Num 60]" by simp
  from missing_bound_skip [of "''C''" ?df "[''A'' \<mapsto> Num 60]" "[''A'' \<mapsto> Num 70]" "[]"] k l
  show ?thesis by blast
qed

text \<open>Claim C6. On the dataset without rows, \<^verbatim>\<open>get_mean\<close>, \<^verbatim>\<open>get_variance\<close> and
  \<^verbatim>\<open>get_std_dev\<close> return the empty dictionary, and \<^verbatim>\<open>get_sigma\<close> returns
  normally with the empty dictionary, for any bounds, and prints nothing.\<close>

theorem empty_dataset:
  "get_mean [] = [] \<and> get_variance [] = [] \<and> get_std_dev [] = [] \<and>
   get_sigma [] lsl usl out = Inr \<lparr>LSL = lsl, USL = usl, sigma_dict = [], stdout = out\<rparr>"
  by (simp add: stats_defs sigma_defs)

text \<open>Claim C7. Every key of \<^verbatim>\<open>get_mean\<close>'s result is a key of \<^verbatim>\<open>get_variance\<close>'s
  and of \<^verbatim>\<open>get_std_dev\<close>'s result. \<^verbatim>\<open>get_sigma\<close> returns normally, the keys of
  its result are keys of \<^verbatim>\<open>get_mean\<close>'s result, of \<^verbatim>\<open>LSL\<close>, of \<^verbatim>\<open>USL\<close> and of
  \<^verbatim>\<open>get_std_dev\<close>'s result, and none of them has the standard deviation 0.\<close>

theorem key_sets:
  "set (keys (get_mean df)) \<subseteq> set (keys (get_variance df)) \<and>
   set (keys (get_mean df)) \<subseteq> set (keys (get_std_dev df)) \<and>
   (\<exists>st. get_sigma df lsl usl out = Inr st \<and>
      set (keys (sigma_dict st)) \<subseteq>
        set (keys (get_mean df)) \<inter> dom lsl \<inter> dom usl \<inter> set (keys (get_std_dev df)) \<and>
      (\<forall>k\<in>set (keys (sigma_dict st)). map_of (get_std_dev df) k \<noteq> Some (Num 0)))"
proof (intro conjI)
  show "set (keys (get_mean df)) \<subseteq> set (keys (get_variance df))"
    by (simp add: get_mean_def get_variance_def keys_groupby_agg)
  show "set (keys (get_mean df)) \<subseteq> set (keys (get_std_dev df))"
    by (simp add: get_mean_def get_std_dev_def keys_groupby_agg)
  let ?md = "get_mean df" and ?sd = "get_std_dev df"
  let ?d = "entries (sigma_entry ?md ?sd lsl usl) (group_keys df)"
  have sub: "set (keys ?d) \<subseteq> set (keys ?md) \<inter> dom lsl \<inter> dom usl \<inter> set (keys ?sd)"
    by (auto simp: keys_entries sigma_entry_Some_iff keys_map_of)
  have nz: "\<forall>k\<in>set (keys ?d). map_of ?sd k \<noteq> Some (Num 0)"
    by (auto simp: keys_entries sigma_entry_Some_iff)
  from sub nz show "\<exists>st. get_sigma df lsl usl out = Inr st \<and>
      set (keys (sigma_dict st)) \<subseteq>
        set (keys (get_mean df)) \<inter> dom lsl \<inter> dom usl \<inter> set (keys (get_std_dev df)) \<and>
      (\<forall>k\<in>set (keys (sigma_dict st)). map_of (get_std_dev df) k \<noteq> Some (Num 0))"
    by (simp add: get_sigma_eq)
qed

text \<open>C7 used at the rows (A,65), (A,67), (A,63) with bounds for A: the key A of the
  sigma dictionary has a standard deviation other than 0.\<close>

theorem key_sets_witness:
  "\<exists>st. get_sigma [(''A'', Num 65), (''A'', Num 67), (''A'', Num 63)]
            [''A'' \<mapsto> Num 60] [''A'' \<mapsto> Num 70] [] = Inr st \<and>
     ''A'' \<in> set (keys (sigma_dict st)) \<and>
     map_of (get_std_dev [(''A'', Num 65), (''A'', Num 67), (''A'', Num 63)]) ''A'' \<noteq> Some (Num 0)"
proof -
  let ?df = "[(''A'', Num 65), (''A'', Num 67), (''A'', Num 63)]"
  let ?lsl = "[''A'' \<mapsto> Num 60]" and ?usl = "[''A'' \<mapsto> Num 70]"
  from key_sets [of ?df ?lsl ?usl "[]"]
  obtain st where st: "get_sigma ?df ?lsl ?usl [] = Inr st"
    and nz: "\<forall>k\<in>set (keys (sigma_dict st)). map_of (get_std_dev ?df) k \<noteq> Some (Num 0)"
    by blast
  have "get_sigma ?df ?lsl ?usl [] =
      Inr \<lparr>LSL = ?lsl, USL = ?usl, sigma_dict = [(''A'', Num (5 / 2))], stdout = []\<rparr>"
    by (simp add: stats_defs sigma_defs)
  with st have k: "''A'' \<in> set (keys (sigma_dict st))"
    by (auto simp: keys_def)
  with nz have "map_of (get_std_dev ?df) ''A'' \<noteq> Some (Num 0)"
    by blast
  with st k show ?thesis by blast
qed

text \<open>Claim C9. \<^verbatim>\<open>get_sigma\<close> returns normally, and the bound dictionaries of the state
  it ends in are the ones it was called with: no iteration of the loop writes to
  \<^verbatim>\<open>LSL\<close> or \<^verbatim>\<open>USL\<close>.\<close>

theorem get_sigma_bounds_unchanged:
  "\<exists>st. get_sigma df lsl usl out = Inr st \<and> LSL st = lsl \<and> USL st = usl"
  by (simp add: get_sigma_eq)

text \<open>Claim C10. For a SKU of the dataset whose group has at most one sample (in
  particular a group of exactly one row), \<^verbatim>\<open>get_variance\<close> and \<^verbatim>\<open>get_std_dev\<close>
  keep the key and map it to not-a-number. If the SKU is also a key of both bound
  dictionaries, \<^verbatim>\<open>get_sigma\<close> returns normally and maps the SKU to not-a-number:
  the test \<^verbatim>\<open>std == 0\<close> is false on not-a-number, so the key is not skipped.\<close>

theorem single_sample_nan:
  "k \<in> fst ` set df \<and> length (samples (group_values df k)) \<le> 1 \<longrightarrow>
   map_of (get_variance df) k = Some NaN \<and> map_of (get_std_dev df) k = Some NaN \<and>
   (k \<in> dom lsl \<and> k \<in> dom usl \<longrightarrow>
      (\<exists>st. get_sigma df lsl usl out = Inr st \<and> map_of (sigma_dict st) k = Some NaN))"
proof (intro impI conjI)
  assume a: "k \<in> fst ` set df \<and> length (samples (group_values df k)) \<le> 1"
  then show var: "map_of (get_variance df) k = Some NaN"
    by (simp add: get_variance_def map_of_groupby_agg agg_var_def)
  from a show std: "map_of (get_std_dev df) k = Some NaN"
    by (simp add: get_std_dev_def map_of_groupby_agg agg_std_def agg_var_def)
  assume b: "k \<in> dom lsl \<and> k \<in> dom usl"
  then obtain l u where lu: "lsl k = Some l" "usl k = Some u" by auto
  from a obtain m where m: "map_of (get_mean df) k = Some m"
    by (simp add: get_mean_def map_of_groupby_agg)
  have "fdiv (py_min (fsub u m) (fsub m l)) NaN = Inr NaN"
    by (cases "py_min (fsub u m) (fsub m l)") simp_all
  with lu m std have "sigma_entry (get_mean df) (get_std_dev df) lsl usl k = Some NaN"
    by (auto simp: sigma_entry_Some_iff)
  with a show "\<exists>st. get_sigma df lsl usl out = Inr st \<and> map_of (sigma_dict st) k = Some NaN"
    by (simp add: get_sigma_eq map_of_entries set_group_keys)
qed

text \<open>C10 used at the single row (A,65) with the bounds 60 and 70.\<close>

theorem single_sample_nan_witness:
  "''A'' \<in> fst ` set [(''A'', Num 65)] \<and> length (samples (group_values [(''A'', Num 65)] ''A'')) \<le> 1 \<and>
   ''A'' \<in> dom [''A'' \<mapsto> Num 60] \<and> ''A'' \<in> dom [''A'' \<mapsto> Num 70] \<and>
   map_of (get_variance [(''A'', Num 65)]) ''A'' = Some NaN \<and>
   map_of (get_std_dev [(''A'', Num 65)]) ''A'' = Some NaN \<and>
   (\<exists>st. get_sigma [(''A'', Num 65)] [''A'' \<mapsto> Num 60] [''A'' \<mapsto> Num 70] [] = Inr st \<and>
      map_of (sigma_dict st) ''A'' = Some NaN)"
proof -
  let ?df = "[(''A'', Num 65)]"
  have k: "''A'' \<in> fst ` set ?df" by simp
  have n: "length (samples (group_values ?df ''A'')) \<le> 1"
    by (simp add: group_values_def)
  have l: "''A'' \<in> dom [''A'' \<mapsto> Num 60]" and u: "''A'' \<in> dom [''A'' \<mapsto> Num 70]"
    by simp_all
  from single_sample_nan [of "''A''" ?df "[''A'' \<mapsto> Num 60]" "[''A'' \<mapsto> Num 70]" "[]"] k n l u
  show ?thesis by blast
qed

end
